theory Spec2Isabelle
  imports Complex_Main
begin

section \<open>Data model\<close>

text \<open>
  The program computes on C++ \<^verbatim>\<open>float\<close>. Finite float values are modelled as
  \<^typ>\<open>real\<close>, decimal literals denote their decimal value, and arithmetic is exact:
  rounding, overflow to infinity and NaN operands are outside the model. The places where
  the program can produce a non-finite value from finite operands (a division by zero)
  are modelled explicitly, see \<open>fl\<close> and \<open>numLines\<close> below.

  \<^verbatim>\<open>struct Point3D { float x, y, z; float r, g, b; float intensity; }\<close>.
  The fields carry the prefix \<open>p\<close> because a record field is a constant and the
  one-letter names are needed for variables.
\<close>

record Point3D =
  px :: real
  py :: real
  pz :: real
  pr :: real
  pg :: real
  pb :: real
  intensity :: real

text \<open>\<^verbatim>\<open>class Camera\<close> of point_cloud_renderer.h: seven public float fields.\<close>

record Camera =
  distance :: real
  yaw :: real
  pitch :: real
  targetX :: real
  targetY :: real
  targetZ :: real
  fov :: real

text \<open>
  \<^verbatim>\<open>class PointCloudRenderer\<close>: the private members in the order of the header.
  \<open>pointCount\<close> is a \<^verbatim>\<open>size_t\<close>, \<open>colorMode\<close> and \<open>gridSize\<close> are \<^verbatim>\<open>int\<close>.
\<close>

record PointCloudRenderer =
  pointCount :: nat
  pointSize :: real
  colorMode :: int
  showGrid :: bool
  gridSpacing :: real
  gridSize :: int
  showAxisLabels :: bool
  camera :: Camera
  points :: "Point3D list"
  minX :: real
  maxX :: real
  minY :: real
  maxY :: real
  minZ :: real
  maxZ :: real

text \<open>\<^verbatim>\<open>enum ColorMode\<close>.\<close>

definition COLOR_RGB :: int where "COLOR_RGB = 0"
definition COLOR_HEIGHT :: int where "COLOR_HEIGHT = 1"
definition COLOR_INTENSITY :: int where "COLOR_INTENSITY = 2"
definition COLOR_UNIFORM :: int where "COLOR_UNIFORM = 3"

section \<open>Camera\<close>

text \<open>\<^verbatim>\<open>Camera::reset\<close> assigns every field.\<close>

definition reset :: "Camera \<Rightarrow> Camera" where
  "reset c = c\<lparr>distance := 10, yaw := 45, pitch := 30,
               targetX := 0, targetY := 0, targetZ := 0, fov := 45\<rparr>"

text \<open>
  \<^verbatim>\<open>Camera::Camera() { reset(); }\<close>: the fields are uninitialised before the call and
  all of them are written by it, so the constructed camera is this value.
\<close>

definition Camera_init :: Camera where
  "Camera_init = \<lparr>distance = 10, yaw = 45, pitch = 30,
                  targetX = 0, targetY = 0, targetZ = 0, fov = 45\<rparr>"

text \<open>\<^verbatim>\<open>Camera::orbit\<close>: two additions, then the two clamping statements in order.\<close>

definition orbit :: "Camera \<Rightarrow> real \<Rightarrow> real \<Rightarrow> Camera" where
  "orbit c deltaYaw deltaPitch =
     (let c1 = c\<lparr>yaw := yaw c + deltaYaw\<rparr>;
          c2 = c1\<lparr>pitch := pitch c1 + deltaPitch\<rparr>;
          c3 = (if pitch c2 > 89 then c2\<lparr>pitch := 89\<rparr> else c2);
          c4 = (if pitch c3 < - 89 then c3\<lparr>pitch := - 89\<rparr> else c3)
      in c4)"

text \<open>The macro \<^verbatim>\<open>M_PI\<close> as the source defines it.\<close>

definition M_PI :: real where
  "M_PI = 3.14159265358979323846"

text \<open>\<^verbatim>\<open>Camera::pan\<close>.\<close>

definition pan :: "Camera \<Rightarrow> real \<Rightarrow> real \<Rightarrow> Camera" where
  "pan c deltaX deltaY =
     (let yawRad = yaw c * M_PI / 180;
          right_x = cos yawRad;
          right_z = - sin yawRad;
          up_y = 1;
          scale = distance c * 0.001;
          c1 = c\<lparr>targetX := targetX c + (right_x * deltaX - right_x * deltaY) * scale\<rparr>;
          c2 = c1\<lparr>targetY := targetY c1 + up_y * deltaY * scale\<rparr>;
          c3 = c2\<lparr>targetZ := targetZ c2 + (right_z * deltaX - right_z * deltaY) * scale\<rparr>
      in c3)"

text \<open>\<^verbatim>\<open>Camera::zoom\<close>: the multiplication, then the two clamping statements in order.\<close>

definition zoom :: "Camera \<Rightarrow> real \<Rightarrow> Camera" where
  "zoom c delta =
     (let c1 = c\<lparr>distance := distance c * (1 - delta * 0.1)\<rparr>;
          c2 = (if distance c1 < 0.1 then c1\<lparr>distance := 0.1\<rparr> else c1);
          c3 = (if distance c2 > 1000 then c2\<lparr>distance := 1000\<rparr> else c2)
      in c3)"

text \<open>The CAD-style view presets.\<close>

definition setTopView :: "Camera \<Rightarrow> Camera" where
  "setTopView c = c\<lparr>yaw := 0, pitch := 89\<rparr>"

definition setFrontView :: "Camera \<Rightarrow> Camera" where
  "setFrontView c = c\<lparr>yaw := 0, pitch := 0\<rparr>"

definition setSideView :: "Camera \<Rightarrow> Camera" where
  "setSideView c = c\<lparr>yaw := 90, pitch := 0\<rparr>"

definition setIsometricView :: "Camera \<Rightarrow> Camera" where
  "setIsometricView c = c\<lparr>yaw := 45, pitch := 35.26\<rparr>"


fun orbit_all :: "Camera \<Rightarrow> (real \<times> real) list \<Rightarrow> Camera" where
  "orbit_all c [] = c"
| "orbit_all c ((dy, dp) # ds) = orbit_all (orbit c dy dp) ds"

section \<open>Point store\<close>

text \<open>
  \<^verbatim>\<open>std::min(a, b)\<close> is \<^verbatim>\<open>(b < a) ? b : a\<close> and \<^verbatim>\<open>std::max(a, b)\<close> is
  \<^verbatim>\<open>(a < b) ? b : a\<close>; the initializer-list form used on the three sizes returns
  the greatest element.
\<close>

definition std_min :: "real \<Rightarrow> real \<Rightarrow> real" where
  "std_min a b = (if b < a then b else a)"

definition std_max :: "real \<Rightarrow> real \<Rightarrow> real" where
  "std_max a b = (if a < b then b else a)"

definition std_max3 :: "real \<Rightarrow> real \<Rightarrow> real \<Rightarrow> real" where
  "std_max3 a b c = std_max (std_max a b) c"

text \<open>
  \<^verbatim>\<open>std::numeric_limits<float>::max()\<close>, that is \<open>(2 - 2^-23) * 2^127\<close>;
  \<^verbatim>\<open>lowest()\<close> is its negation. Every finite float lies within these limits; a
  sample is finite when its three coordinates do.
\<close>

definition FLT_MAX :: real where
  "FLT_MAX = 340282346638528859811704183484516925440"

definition finite_float :: "real \<Rightarrow> bool" where
  "finite_float v = (- FLT_MAX \<le> v \<and> v \<le> FLT_MAX)"

definition finite_point :: "Point3D \<Rightarrow> bool" where
  "finite_point p = (finite_float (px p) \<and> finite_float (py p) \<and> finite_float (pz p))"

text \<open>
  \<^verbatim>\<open>PointCloudRenderer::PointCloudRenderer()\<close>: the member initialisers, the two
  assignments of the body, and the default-constructed camera and vector.
\<close>

definition PointCloudRenderer_init :: PointCloudRenderer where
  "PointCloudRenderer_init =
     \<lparr>pointCount = 0, pointSize = 2, colorMode = COLOR_RGB, showGrid = True,
      gridSpacing = 1, gridSize = 10, showAxisLabels = True,
      camera = Camera_init, points = [],
      minX = 0, maxX = 0, minY = 0, maxY = 0, minZ = 0, maxZ = 0\<rparr>"

text \<open>The body of the loop of \<^verbatim>\<open>calculateBounds\<close>: six assignments.\<close>

definition bounds_step :: "PointCloudRenderer \<Rightarrow> Point3D \<Rightarrow> PointCloudRenderer" where
  "bounds_step st p =
     (let s1 = st\<lparr>minX := std_min (minX st) (px p)\<rparr>;
          s2 = s1\<lparr>maxX := std_max (maxX s1) (px p)\<rparr>;
          s3 = s2\<lparr>minY := std_min (minY s2) (py p)\<rparr>;
          s4 = s3\<lparr>maxY := std_max (maxY s3) (py p)\<rparr>;
          s5 = s4\<lparr>minZ := std_min (minZ s4) (pz p)\<rparr>;
          s6 = s5\<lparr>maxZ := std_max (maxZ s5) (pz p)\<rparr>
      in s6)"

fun bounds_loop :: "PointCloudRenderer \<Rightarrow> Point3D list \<Rightarrow> PointCloudRenderer" where
  "bounds_loop st [] = st"
| "bounds_loop st (p # ps) = bounds_loop (bounds_step st p) ps"

text \<open>\<^verbatim>\<open>PointCloudRenderer::calculateBounds\<close>.\<close>

definition calculateBounds :: "PointCloudRenderer \<Rightarrow> PointCloudRenderer" where
  "calculateBounds st =
     (if points st = []
      then st\<lparr>minX := 0, minY := 0, minZ := 0, maxX := 0, maxY := 0, maxZ := 0\<rparr>
      else bounds_loop
             (st\<lparr>minX := FLT_MAX, minY := FLT_MAX, minZ := FLT_MAX,
                 maxX := - FLT_MAX, maxY := - FLT_MAX, maxZ := - FLT_MAX\<rparr>)
             (points st))"

text \<open>\<^verbatim>\<open>PointCloudRenderer::setPointCloud\<close>.\<close>

definition setPointCloud :: "PointCloudRenderer \<Rightarrow> Point3D list \<Rightarrow> PointCloudRenderer" where
  "setPointCloud st newPoints =
     (let s1 = st\<lparr>points := newPoints\<rparr>;
          s2 = s1\<lparr>pointCount := length (points s1)\<rparr>;
          s3 = calculateBounds s2;
          s4 = s3\<lparr>camera := (camera s3)\<lparr>targetX := (minX s3 + maxX s3) * 0.5\<rparr>\<rparr>;
          s5 = s4\<lparr>camera := (camera s4)\<lparr>targetY := (minY s4 + maxY s4) * 0.5\<rparr>\<rparr>;
          s6 = s5\<lparr>camera := (camera s5)\<lparr>targetZ := (minZ s5 + maxZ s5) * 0.5\<rparr>\<rparr>;
          sizeX = maxX s6 - minX s6;
          sizeY = maxY s6 - minY s6;
          sizeZ = maxZ s6 - minZ s6;
          maxSize = std_max3 sizeX sizeY sizeZ
      in s6\<lparr>camera := (camera s6)\<lparr>distance := maxSize * 2\<rparr>\<rparr>)"

text \<open>\<^verbatim>\<open>PointCloudRenderer::clearPointCloud\<close>: two statements.\<close>

definition clearPointCloud :: "PointCloudRenderer \<Rightarrow> PointCloudRenderer" where
  "clearPointCloud st = (let s1 = st\<lparr>points := []\<rparr> in s1\<lparr>pointCount := 0\<rparr>)"

text \<open>The inline setters of the header; \<open>v\<close> is the argument.\<close>

definition setPointSize :: "PointCloudRenderer \<Rightarrow> real \<Rightarrow> PointCloudRenderer" where
  "setPointSize st v = st\<lparr>pointSize := v\<rparr>"

definition setColorMode :: "PointCloudRenderer \<Rightarrow> int \<Rightarrow> PointCloudRenderer" where
  "setColorMode st v = st\<lparr>colorMode := v\<rparr>"

definition setShowGrid :: "PointCloudRenderer \<Rightarrow> bool \<Rightarrow> PointCloudRenderer" where
  "setShowGrid st v = st\<lparr>showGrid := v\<rparr>"

definition setGridSpacing :: "PointCloudRenderer \<Rightarrow> real \<Rightarrow> PointCloudRenderer" where
  "setGridSpacing st v = st\<lparr>gridSpacing := v\<rparr>"

definition setGridSize :: "PointCloudRenderer \<Rightarrow> int \<Rightarrow> PointCloudRenderer" where
  "setGridSize st v = st\<lparr>gridSize := v\<rparr>"

definition setShowAxisLabels :: "PointCloudRenderer \<Rightarrow> bool \<Rightarrow> PointCloudRenderer" where
  "setShowAxisLabels st v = st\<lparr>showAxisLabels := v\<rparr>"

text \<open>
  The bounding box in the words of the specification: per axis, the least and the
  greatest coordinate of the samples, and the all-zero box for no samples.
\<close>

definition spec_min :: "(Point3D \<Rightarrow> real) \<Rightarrow> Point3D list \<Rightarrow> real" where
  "spec_min axis ps = (if ps = [] then 0 else Min (axis ` set ps))"

definition spec_max :: "(Point3D \<Rightarrow> real) \<Rightarrow> Point3D list \<Rightarrow> real" where
  "spec_max axis ps = (if ps = [] then 0 else Max (axis ` set ps))"

section \<open>The public interface as a sequence of calls\<close>

text \<open>
  Every state-changing member function of the two classes, the camera being reached
  through \<^verbatim>\<open>getCamera()\<close>. The rendering functions read the state and leave it as it is.
  A reachable state is the constructed renderer after a finite sequence of calls.
\<close>

datatype api_call =
    SetPointCloud "Point3D list"
  | ClearPointCloud
  | SetPointSize real
  | SetColorMode int
  | SetShowGrid bool
  | SetGridSpacing real
  | SetGridSize int
  | SetShowAxisLabels bool
  | CameraReset
  | CameraOrbit real real
  | CameraPan real real
  | CameraZoom real
  | CameraTopView
  | CameraFrontView
  | CameraSideView
  | CameraIsometricView

fun step :: "PointCloudRenderer \<Rightarrow> api_call \<Rightarrow> PointCloudRenderer" where
  "step st (SetPointCloud ps) = setPointCloud st ps"
| "step st ClearPointCloud = clearPointCloud st"
| "step st (SetPointSize v) = setPointSize st v"
| "step st (SetColorMode m) = setColorMode st m"
| "step st (SetShowGrid b) = setShowGrid st b"
| "step st (SetGridSpacing v) = setGridSpacing st v"
| "step st (SetGridSize n) = setGridSize st n"
| "step st (SetShowAxisLabels b) = setShowAxisLabels st b"
| "step st CameraReset = st\<lparr>camera := reset (camera st)\<rparr>"
| "step st (CameraOrbit dy dp) = st\<lparr>camera := orbit (camera st) dy dp\<rparr>"
| "step st (CameraPan dx dy) = st\<lparr>camera := pan (camera st) dx dy\<rparr>"
| "step st (CameraZoom d) = st\<lparr>camera := zoom (camera st) d\<rparr>"
| "step st CameraTopView = st\<lparr>camera := setTopView (camera st)\<rparr>"
| "step st CameraFrontView = st\<lparr>camera := setFrontView (camera st)\<rparr>"
| "step st CameraSideView = st\<lparr>camera := setSideView (camera st)\<rparr>"
| "step st CameraIsometricView = st\<lparr>camera := setIsometricView (camera st)\<rparr>"

fun run :: "PointCloudRenderer \<Rightarrow> api_call list \<Rightarrow> PointCloudRenderer" where
  "run st [] = st"
| "run st (c # cs) = run (step st c) cs"


section \<open>Drawing the points\<close>

text \<open>
  The division of the height colouring can have a zero divisor, and the program does
  not test for it. Its result and what is computed from it are therefore float values
  with the IEEE special values written out. Zero carries no sign here: a zero divisor
  is the positive zero that \<^verbatim>\<open>maxY - minY\<close> yields for equal operands.
\<close>

datatype fl = Fin real | PInf | NInf | NaN

fun fsub :: "fl \<Rightarrow> fl \<Rightarrow> fl" where
  "fsub NaN _ = NaN"
| "fsub _ NaN = NaN"
| "fsub (Fin a) (Fin b) = Fin (a - b)"
| "fsub (Fin a) PInf = NInf"
| "fsub (Fin a) NInf = PInf"
| "fsub PInf PInf = NaN"
| "fsub NInf NInf = NaN"
| "fsub PInf _ = PInf"
| "fsub NInf _ = NInf"

fun fmul :: "fl \<Rightarrow> fl \<Rightarrow> fl" where
  "fmul NaN _ = NaN"
| "fmul _ NaN = NaN"
| "fmul (Fin a) (Fin b) = Fin (a * b)"
| "fmul (Fin a) PInf = (if a = 0 then NaN else if 0 < a then PInf else NInf)"
| "fmul (Fin a) NInf = (if a = 0 then NaN else if 0 < a then NInf else PInf)"
| "fmul PInf (Fin b) = (if b = 0 then NaN else if 0 < b then PInf else NInf)"
| "fmul NInf (Fin b) = (if b = 0 then NaN else if 0 < b then NInf else PInf)"
| "fmul PInf PInf = PInf"
| "fmul PInf NInf = NInf"
| "fmul NInf PInf = NInf"
| "fmul NInf NInf = PInf"

fun fdiv :: "fl \<Rightarrow> fl \<Rightarrow> fl" where
  "fdiv NaN _ = NaN"
| "fdiv _ NaN = NaN"
| "fdiv (Fin a) (Fin b) =
     (if b \<noteq> 0 then Fin (a / b) else if a = 0 then NaN else if 0 < a then PInf else NInf)"
| "fdiv (Fin a) _ = Fin 0"
| "fdiv PInf (Fin b) = (if 0 \<le> b then PInf else NInf)"
| "fdiv NInf (Fin b) = (if 0 \<le> b then NInf else PInf)"
| "fdiv _ _ = NaN"

fun fabs :: "fl \<Rightarrow> fl" where
  "fabs (Fin a) = Fin \<bar>a\<bar>"
| "fabs PInf = PInf"
| "fabs NInf = PInf"
| "fabs NaN = NaN"

type_synonym color3 = "fl \<times> fl \<times> fl"

text \<open>
  The \<^verbatim>\<open>switch (colorMode)\<close> of \<^verbatim>\<open>render\<close>: the arguments of the \<^verbatim>\<open>glColor3f\<close>
  call made for a sample, or \<open>None\<close> when \<open>colorMode\<close> is none of the four cases
  and no call is made.
\<close>

definition point_color :: "PointCloudRenderer \<Rightarrow> Point3D \<Rightarrow> color3 option" where
  "point_color st p =
     (if colorMode st = COLOR_RGB then Some (Fin (pr p), Fin (pg p), Fin (pb p))
      else if colorMode st = COLOR_HEIGHT then
        (let t = fdiv (fsub (Fin (py p)) (Fin (minY st))) (fsub (Fin (maxY st)) (Fin (minY st)))
         in Some (t, fsub (Fin 1) (fmul (fabs (fsub t (Fin 0.5))) (Fin 2)), fsub (Fin 1) t))
      else if colorMode st = COLOR_INTENSITY then
        Some (Fin (intensity p), Fin (intensity p), Fin (intensity p))
      else if colorMode st = COLOR_UNIFORM then Some (Fin 1, Fin 1, Fin 1)
      else None)"

text \<open>
  The point loop of \<^verbatim>\<open>render\<close>: for each sample the colour in force and the vertex
  submitted. \<open>cur\<close> is the current colour of the graphics context, which a sample
  keeps when no \<^verbatim>\<open>glColor3f\<close> call is made for it.
\<close>

fun draw_points :: "PointCloudRenderer \<Rightarrow> color3 \<Rightarrow> Point3D list
    \<Rightarrow> (color3 \<times> real \<times> real \<times> real) list" where
  "draw_points st cur [] = []"
| "draw_points st cur (p # ps) =
     (let c = (case point_color st p of Some c' \<Rightarrow> c' | None \<Rightarrow> cur)
      in (c, px p, py p, pz p) # draw_points st c ps)"

text \<open>The point stage of \<^verbatim>\<open>render\<close>, with its early return on \<open>pointCount == 0\<close>.\<close>

definition render_points :: "PointCloudRenderer \<Rightarrow> color3
    \<Rightarrow> (color3 \<times> real \<times> real \<times> real) list" where
  "render_points st cur = (if pointCount st = 0 then [] else draw_points st cur (points st))"

section \<open>Grid lines and axis labels\<close>

text \<open>
  The conversion \<^verbatim>\<open>(int)\<close> of a float truncates towards zero. The line count
  \<^verbatim>\<open>(int)(size / gridSpacing) + 1\<close> has no defined value when the divisor is zero (the
  quotient is then not finite) or when the result does not fit an \<^verbatim>\<open>int\<close>: \<open>None\<close>.
\<close>

definition trunc :: "real \<Rightarrow> int" where
  "trunc v = (if 0 \<le> v then \<lfloor>v\<rfloor> else \<lceil>v\<rceil>)"

definition INT_MAX :: int where "INT_MAX = 2147483647"
definition INT_MIN :: int where "INT_MIN = - 2147483648"

definition numLines :: "real \<Rightarrow> real \<Rightarrow> int option" where
  "numLines sz spacing =
     (if spacing = 0 then None
      else (let q = trunc (sz / spacing)
            in if INT_MIN \<le> q \<and> q + 1 \<le> INT_MAX then Some (q + 1) else None))"

text \<open>
  The loop \<^verbatim>\<open>for (int i = i0; i <= n; i += skip)\<close>: the values of \<open>i\<close> for which the
  body runs. The program calls it with a \<open>skip\<close> of 1, 2 or 4 only; the test
  \<open>0 < skip\<close> makes the function total for the other values.
\<close>

function for_upto :: "int \<Rightarrow> int \<Rightarrow> int \<Rightarrow> int list" where
  "for_upto i n skip = (if i \<le> n \<and> 0 < skip then i # for_upto (i + skip) n skip else [])"
  by pat_completeness auto
termination
  by (relation "measure (\<lambda>(i, n, skip). nat (n + 1 - i))") auto

declare for_upto.simps [simp del]

text \<open>
  \<^verbatim>\<open>PointCloudRenderer::renderGrid\<close>: the indices of the grid lines drawn across the
  X, the Y and the Z axis (each index is drawn on two of the three planes).
\<close>

definition renderGrid :: "PointCloudRenderer \<Rightarrow> (int list \<times> int list \<times> int list) option" where
  "renderGrid st =
     (if \<not> showGrid st then Some ([], [], [])
      else (let sizeX = maxX st - minX st;
                sizeY = maxY st - minY st;
                sizeZ = maxZ st - minZ st
            in if sizeX = 0 \<or> sizeY = 0 \<or> sizeZ = 0 then Some ([], [], [])
               else (case (numLines sizeX (gridSpacing st), numLines sizeY (gridSpacing st),
                           numLines sizeZ (gridSpacing st)) of
                       (Some numLinesX, Some numLinesY, Some numLinesZ) \<Rightarrow>
                         Some (for_upto 0 numLinesX 1, for_upto 0 numLinesY 1,
                               for_upto 0 numLinesZ 1)
                     | _ \<Rightarrow> None)))"

text \<open>
  \<^verbatim>\<open>PointCloudRenderer::renderAxisLabels\<close> is defined three times in the repository,
  in the files part_001, part_002 and part_003. Each definition is modelled by the
  indices of the grid lines for which a label is submitted along the X, Y and Z axis.
  In part_001 and part_003 a submitted label is drawn when its projection is visible;
  the projection belongs to the graphics library and is not modelled.

  part_003: one threshold, 10.
\<close>

definition skip_part_003 :: "int \<Rightarrow> int" where
  "skip_part_003 n = (if n > 10 then 2 else 1)"

definition renderAxisLabels_part_003 ::
    "PointCloudRenderer \<Rightarrow> (int list \<times> int list \<times> int list) option" where
  "renderAxisLabels_part_003 st =
     (if \<not> showAxisLabels st \<or> \<not> showGrid st then Some ([], [], [])
      else if maxX st = minX st \<or> maxY st = minY st \<or> maxZ st = minZ st then Some ([], [], [])
      else (let sizeX = maxX st - minX st;
                sizeY = maxY st - minY st;
                sizeZ = maxZ st - minZ st
            in case (numLines sizeX (gridSpacing st), numLines sizeY (gridSpacing st),
                     numLines sizeZ (gridSpacing st)) of
                 (Some numLinesX, Some numLinesY, Some numLinesZ) \<Rightarrow>
                   Some (for_upto 0 numLinesX (skip_part_003 numLinesX),
                         for_upto 0 numLinesY (skip_part_003 numLinesY),
                         for_upto 0 numLinesZ (skip_part_003 numLinesZ))
               | _ \<Rightarrow> None))"

text \<open>
  part_002: thresholds 15 and 30 per axis; labels at fixed screen positions for the X
  and the Y axis, and a single range label instead of line labels for the Z axis.
\<close>

definition skip_part_002 :: "int \<Rightarrow> int" where
  "skip_part_002 n = (let s = (if n > 15 then 2 else 1) in if n > 30 then 4 else s)"

definition renderAxisLabels_part_002 ::
    "PointCloudRenderer \<Rightarrow> (int list \<times> int list \<times> int list) option" where
  "renderAxisLabels_part_002 st =
     (if \<not> showAxisLabels st \<or> \<not> showGrid st then Some ([], [], [])
      else if maxX st = minX st \<or> maxY st = minY st \<or> maxZ st = minZ st then Some ([], [], [])
      else (let sizeX = maxX st - minX st;
                sizeY = maxY st - minY st;
                sizeZ = maxZ st - minZ st
            in case (numLines sizeX (gridSpacing st), numLines sizeY (gridSpacing st),
                     numLines sizeZ (gridSpacing st)) of
                 (Some numLinesX, Some numLinesY, Some numLinesZ) \<Rightarrow>
                   Some (for_upto 0 numLinesX (skip_part_002 numLinesX),
                         for_upto 0 numLinesY (skip_part_002 numLinesY),
                         [])
               | _ \<Rightarrow> None))"

text \<open>
  part_001: \<open>labelSkip\<close> is computed from the X line count and used for the X and
  the Z axis; \<open>yLabelSkip\<close> starts from \<open>labelSkip\<close> and is overwritten from the
  Y line count.
\<close>

definition labelSkip_part_001 :: "int \<Rightarrow> int" where
  "labelSkip_part_001 numLinesX =
     (let s0 = 1;
          s1 = (if numLinesX > 15 then 2 else s0);
          s2 = (if numLinesX > 30 then 4 else s1)
      in s2)"

definition yLabelSkip_part_001 :: "int \<Rightarrow> int \<Rightarrow> int" where
  "yLabelSkip_part_001 labelSkip numLinesY =
     (let s0 = labelSkip;
          s1 = (if numLinesY > 15 then 2 else s0);
          s2 = (if numLinesY > 30 then 4 else s1)
      in s2)"

definition renderAxisLabels_part_001 ::
    "PointCloudRenderer \<Rightarrow> (int list \<times> int list \<times> int list) option" where
  "renderAxisLabels_part_001 st =
     (if \<not> showAxisLabels st \<or> \<not> showGrid st then Some ([], [], [])
      else if maxX st = minX st \<or> maxY st = minY st \<or> maxZ st = minZ st then Some ([], [], [])
      else (let sizeX = maxX st - minX st;
                sizeZ = maxZ st - minZ st
            in case (numLines sizeX (gridSpacing st), numLines sizeZ (gridSpacing st),
                     numLines (maxY st - minY st) (gridSpacing st)) of
                 (Some numLinesX, Some numLinesZ, Some numLinesY) \<Rightarrow>
                   (let labelSkip = labelSkip_part_001 numLinesX;
                        yLabelSkip = yLabelSkip_part_001 labelSkip numLinesY
                    in Some (for_upto 0 numLinesX labelSkip,
                             for_upto 0 numLinesY yLabelSkip,
                             for_upto 0 numLinesZ labelSkip))
               | _ \<Rightarrow> None))"

text \<open>
  The thinning in the words of the specification: every line up to a count of 15, every
  2nd line above 15, every 4th line above 30.
\<close>

definition spec_skip :: "int \<Rightarrow> int" where
  "spec_skip n = (if n > 30 then 4 else if n > 15 then 2 else 1)"

section \<open>Example inputs\<close>

text \<open>
  \<^verbatim>\<open>Point3D(x, y, z)\<close>: the constructor with its default colour (1, 1, 1) and
  intensity 1.
\<close>

definition Point3D_at :: "real \<Rightarrow> real \<Rightarrow> real \<Rightarrow> Point3D" where
  "Point3D_at x y z = \<lparr>px = x, py = y, pz = z, pr = 1, pg = 1, pb = 1, intensity = 1\<rparr>"

text \<open>Two samples, and three samples whose bounding box is the cube from -5 to 5.\<close>

definition two_points :: "Point3D list" where
  "two_points = [Point3D_at 1 5 3, Point3D_at 4 2 6]"






definition long_cloud :: "Point3D list" where
  "long_cloud = [Point3D_at 0 0 0, Point3D_at 11.5 1 1]"


definition fine_grid :: PointCloudRenderer where
  "fine_grid = setGridSpacing (setPointCloud PointCloudRenderer_init long_cloud) 0.5"

section \<open>Camera: clamping and frame conditions\<close>


lemma orbit_pitch_range: "- 89 \<le> pitch (orbit c dy dp) \<and> pitch (orbit c dy dp) \<le> 89"
  by (simp add: orbit_def Let_def)

text \<open>
  C10. The four view presets write yaw and pitch only; orbit leaves distance, target and
  fov as they were; zoom leaves yaw, pitch, target and fov as they were. This holds for
  every camera state and every argument.
\<close>

theorem camera_frame:
  "distance (setTopView c) = distance c \<and> targetX (setTopView c) = targetX c
     \<and> targetY (setTopView c) = targetY c \<and> targetZ (setTopView c) = targetZ c
     \<and> fov (setTopView c) = fov c
   \<and> distance (setFrontView c) = distance c \<and> targetX (setFrontView c) = targetX c
     \<and> targetY (setFrontView c) = targetY c \<and> targetZ (setFrontView c) = targetZ c
     \<and> fov (setFrontView c) = fov c
   \<and> distance (setSideView c) = distance c \<and> targetX (setSideView c) = targetX c
     \<and> targetY (setSideView c) = targetY c \<and> targetZ (setSideView c) = targetZ c
     \<and> fov (setSideView c) = fov c
   \<and> distance (setIsometricView c) = distance c \<and> targetX (setIsometricView c) = targetX c
     \<and> targetY (setIsometricView c) = targetY c \<and> targetZ (setIsometricView c) = targetZ c
     \<and> fov (setIsometricView c) = fov c
   \<and> distance (orbit c dy dp) = distance c \<and> targetX (orbit c dy dp) = targetX c
     \<and> targetY (orbit c dy dp) = targetY c \<and> targetZ (orbit c dy dp) = targetZ c
     \<and> fov (orbit c dy dp) = fov c
   \<and> yaw (zoom c delta) = yaw c \<and> pitch (zoom c delta) = pitch c
     \<and> targetX (zoom c delta) = targetX c \<and> targetY (zoom c delta) = targetY c
     \<and> targetZ (zoom c delta) = targetZ c \<and> fov (zoom c delta) = fov c"
  by (simp add: setTopView_def setFrontView_def setSideView_def setIsometricView_def
        orbit_def zoom_def Let_def)






lemma orbit_all_pitch_range:
  "- 89 \<le> pitch c \<and> pitch c \<le> 89 \<Longrightarrow>
   - 89 \<le> pitch (orbit_all c ds) \<and> pitch (orbit_all c ds) \<le> 89"
proof (induction ds arbitrary: c)
  case Nil
  then show ?case by simp
next
  case (Cons d ds)
  obtain dy dp where d: "d = (dy, dp)" by (cases d)
  show ?case using Cons.IH [OF orbit_pitch_range [of c dy dp]] by (simp add: d)
qed

lemma orbit_zero:
  "- 89 \<le> pitch c \<and> pitch c \<le> 89 \<Longrightarrow> orbit c 0 0 = c"
  by (simp add: orbit_def Let_def)

lemma orbit_zero_repeat:
  "- 89 \<le> pitch c \<and> pitch c \<le> 89 \<Longrightarrow> orbit_all c (replicate n (0, 0)) = c"
  by (induction n) (simp_all add: orbit_zero)


section \<open>Bounding box: the loop computes the minimum and the maximum\<close>

lemma std_min_eq: "std_min a b = min a b"
  by (simp add: std_min_def min_def)

lemma std_max_eq: "std_max a b = max a b"
  by (simp add: std_max_def max_def)

lemma bounds_step_frame:
  "camera (bounds_step st p) = camera st" "points (bounds_step st p) = points st"
  "pointCount (bounds_step st p) = pointCount st" "gridSpacing (bounds_step st p) = gridSpacing st"
  "colorMode (bounds_step st p) = colorMode st" "showGrid (bounds_step st p) = showGrid st"
  "showAxisLabels (bounds_step st p) = showAxisLabels st"
  by (simp_all add: bounds_step_def Let_def)

lemma bounds_loop_frame:
  "camera (bounds_loop st ps) = camera st \<and> points (bounds_loop st ps) = points st
   \<and> pointCount (bounds_loop st ps) = pointCount st
   \<and> gridSpacing (bounds_loop st ps) = gridSpacing st
   \<and> colorMode (bounds_loop st ps) = colorMode st
   \<and> showGrid (bounds_loop st ps) = showGrid st
   \<and> showAxisLabels (bounds_loop st ps) = showAxisLabels st"
  by (induction ps arbitrary: st) (simp_all add: bounds_step_frame)

lemma calculateBounds_frame:
  "camera (calculateBounds st) = camera st" "points (calculateBounds st) = points st"
  "pointCount (calculateBounds st) = pointCount st"
  "gridSpacing (calculateBounds st) = gridSpacing st"
  "colorMode (calculateBounds st) = colorMode st"
  "showGrid (calculateBounds st) = showGrid st"
  "showAxisLabels (calculateBounds st) = showAxisLabels st"
  by (simp_all add: calculateBounds_def bounds_loop_frame)

lemma bounds_loop_fold:
  "minX (bounds_loop st ps) = fold min (map px ps) (minX st)
   \<and> maxX (bounds_loop st ps) = fold max (map px ps) (maxX st)
   \<and> minY (bounds_loop st ps) = fold min (map py ps) (minY st)
   \<and> maxY (bounds_loop st ps) = fold max (map py ps) (maxY st)
   \<and> minZ (bounds_loop st ps) = fold min (map pz ps) (minZ st)
   \<and> maxZ (bounds_loop st ps) = fold max (map pz ps) (maxZ st)"
  by (induction ps arbitrary: st)
     (simp_all add: bounds_step_def Let_def std_min_eq std_max_eq min.commute max.commute)

lemma fold_min_Min: "fold min xs (a::real) = Min (insert a (set xs))"
  using Min.set_eq_fold [of a xs] by simp

lemma fold_max_Max: "fold max xs (a::real) = Max (insert a (set xs))"
  using Max.set_eq_fold [of a xs] by simp

lemma Min_insert_top:
  "finite S \<Longrightarrow> S \<noteq> {} \<Longrightarrow> \<forall>v\<in>S. v \<le> (t::real) \<Longrightarrow> Min (insert t S) = Min S"
  by (simp add: min_def) (meson Min_in Min_le dual_order.trans eq_iff)

lemma Max_insert_bot:
  "finite S \<Longrightarrow> S \<noteq> {} \<Longrightarrow> \<forall>v\<in>S. (t::real) \<le> v \<Longrightarrow> Max (insert t S) = Max S"
  by (simp add: max_def)

section \<open>Pitch in reachable states\<close>

lemma step_pitch_range:
  "- 89 \<le> pitch (camera st) \<and> pitch (camera st) \<le> 89 \<Longrightarrow>
   - 89 \<le> pitch (camera (step st a)) \<and> pitch (camera (step st a)) \<le> 89"
  by (cases a)
     (simp_all add: setPointCloud_def clearPointCloud_def setPointSize_def setColorMode_def
        setShowGrid_def setGridSpacing_def setGridSize_def setShowAxisLabels_def
        reset_def orbit_pitch_range pan_def zoom_def calculateBounds_frame setTopView_def setFrontView_def
        setSideView_def setIsometricView_def Let_def)

lemma run_pitch_range:
  "- 89 \<le> pitch (camera st) \<and> pitch (camera st) \<le> 89 \<Longrightarrow>
   - 89 \<le> pitch (camera (run st calls)) \<and> pitch (camera (run st calls)) \<le> 89"
proof (induction calls arbitrary: st)
  case Nil
  then show ?case by simp
next
  case (Cons a calls)
  show ?case using Cons.IH [OF step_pitch_range [OF Cons.prems, of a]] by simp
qed

lemma init_pitch_range:
  "- 89 \<le> pitch (camera PointCloudRenderer_init) \<and> pitch (camera PointCloudRenderer_init) \<le> 89"
  by (simp add: PointCloudRenderer_init_def Camera_init_def)

text \<open>
  C7. In every reachable state, \<open>orbit(0, 0)\<close> applied \<open>n\<close> times leaves yaw and
  pitch as they were; from a pitch in [-89, 89], it leaves the whole camera as it was,
  every sequence of orbit calls keeps pitch in [-89, 89], and \<open>orbit(0, 1000)\<close> gives
  pitch 89.
\<close>

theorem orbit_pitch_clamped:
  "yaw (orbit_all (camera (run PointCloudRenderer_init calls)) (replicate n (0, 0)))
     = yaw (camera (run PointCloudRenderer_init calls))
   \<and> pitch (orbit_all (camera (run PointCloudRenderer_init calls)) (replicate n (0, 0)))
     = pitch (camera (run PointCloudRenderer_init calls))
   \<and> (- 89 \<le> pitch c \<and> pitch c \<le> 89 \<longrightarrow>
        orbit_all c (replicate n (0, 0)) = c
        \<and> - 89 \<le> pitch (orbit_all c ds) \<and> pitch (orbit_all c ds) \<le> 89
        \<and> pitch (orbit c 0 1000) = 89)"
proof -
  have reach: "- 89 \<le> pitch (camera (run PointCloudRenderer_init calls))
      \<and> pitch (camera (run PointCloudRenderer_init calls)) \<le> 89"
    by (rule run_pitch_range [OF init_pitch_range])
  have a: "orbit_all (camera (run PointCloudRenderer_init calls)) (replicate n (0, 0))
      = camera (run PointCloudRenderer_init calls)"
    by (rule orbit_zero_repeat [OF reach])
  have b: "orbit_all c (replicate n (0, 0)) = c
        \<and> - 89 \<le> pitch (orbit_all c ds) \<and> pitch (orbit_all c ds) \<le> 89
        \<and> pitch (orbit c 0 1000) = 89"
    if h: "- 89 \<le> pitch c \<and> pitch c \<le> 89"
  proof -
    have "pitch (orbit c 0 1000) = 89" using h by (simp add: orbit_def Let_def)
    then show ?thesis using orbit_zero_repeat [OF h] orbit_all_pitch_range [OF h] by simp
  qed
  show ?thesis using a b by simp
qed

theorem orbit_pitch_clamped_witness:
  "- 89 \<le> pitch Camera_init \<and> pitch Camera_init \<le> 89
   \<and> orbit_all Camera_init (replicate 3 (0, 0)) = Camera_init
   \<and> pitch (orbit_all Camera_init [(10, 1000), (0, - 5), (3, - 2000), (0, 1)]) = - 88
   \<and> pitch (orbit Camera_init 0 1000) = 89
   \<and> yaw (orbit_all (camera (run PointCloudRenderer_init [CameraOrbit 20 70, CameraTopView]))
        (replicate 3 (0, 0))) = 0"
  using orbit_pitch_clamped [of "[CameraOrbit 20 70, CameraTopView]" 3 Camera_init
        "[(10, 1000), (0, - 5), (3, - 2000), (0, 1)]"]
  by (simp add: Camera_init_def PointCloudRenderer_init_def orbit_def setTopView_def Let_def)



section \<open>Bounding box against the specification\<close>

lemma calculateBounds_nonempty:
  assumes "points st \<noteq> []"
  shows "minX (calculateBounds st) = Min (insert FLT_MAX (px ` set (points st)))"
    and "maxX (calculateBounds st) = Max (insert (- FLT_MAX) (px ` set (points st)))"
    and "minY (calculateBounds st) = Min (insert FLT_MAX (py ` set (points st)))"
    and "maxY (calculateBounds st) = Max (insert (- FLT_MAX) (py ` set (points st)))"
    and "minZ (calculateBounds st) = Min (insert FLT_MAX (pz ` set (points st)))"
    and "maxZ (calculateBounds st) = Max (insert (- FLT_MAX) (pz ` set (points st)))"
  using assms by (simp_all add: calculateBounds_def bounds_loop_fold fold_min_Min fold_max_Max)

lemma calculateBounds_empty:
  assumes "points st = []"
  shows "minX (calculateBounds st) = 0 \<and> maxX (calculateBounds st) = 0
       \<and> minY (calculateBounds st) = 0 \<and> maxY (calculateBounds st) = 0
       \<and> minZ (calculateBounds st) = 0 \<and> maxZ (calculateBounds st) = 0"
  using assms by (simp add: calculateBounds_def)

lemma calculateBounds_encloses:
  assumes "p \<in> set (points st)"
  shows "minX (calculateBounds st) \<le> px p \<and> px p \<le> maxX (calculateBounds st)
       \<and> minY (calculateBounds st) \<le> py p \<and> py p \<le> maxY (calculateBounds st)
       \<and> minZ (calculateBounds st) \<le> pz p \<and> pz p \<le> maxZ (calculateBounds st)"
proof -
  have ne: "points st \<noteq> []" using assms by auto
  show ?thesis using assms by (simp add: calculateBounds_nonempty [OF ne])
qed

lemma spec_min_attained: "ps \<noteq> [] \<Longrightarrow> \<exists>p\<in>set ps. axis p = spec_min axis ps"
proof -
  assume ne: "ps \<noteq> []"
  then have "Min (axis ` set ps) \<in> axis ` set ps" by (intro Min_in) simp_all
  then obtain p where "p \<in> set ps" "Min (axis ` set ps) = axis p" by (rule imageE)
  then show ?thesis using ne unfolding spec_min_def by (intro bexI [of _ p]) simp_all
qed

lemma spec_max_attained: "ps \<noteq> [] \<Longrightarrow> \<exists>p\<in>set ps. axis p = spec_max axis ps"
proof -
  assume ne: "ps \<noteq> []"
  then have "Max (axis ` set ps) \<in> axis ` set ps" by (intro Max_in) simp_all
  then obtain p where "p \<in> set ps" "Max (axis ` set ps) = axis p" by (rule imageE)
  then show ?thesis using ne unfolding spec_max_def by (intro bexI [of _ p]) simp_all
qed

lemma Min_insert_FLT_MAX:
  assumes "ps \<noteq> []" and "\<forall>p\<in>set ps. axis p \<le> FLT_MAX"
  shows "Min (insert FLT_MAX (axis ` set ps)) = spec_min axis ps"
proof -
  have "Min (insert FLT_MAX (axis ` set ps)) = Min (axis ` set ps)"
    by (rule Min_insert_top) (use assms in simp_all)
  then show ?thesis using assms(1) by (simp only: spec_min_def if_False)
qed

lemma Max_insert_lowest:
  assumes "ps \<noteq> []" and "\<forall>p\<in>set ps. - FLT_MAX \<le> axis p"
  shows "Max (insert (- FLT_MAX) (axis ` set ps)) = spec_max axis ps"
proof -
  have "Max (insert (- FLT_MAX) (axis ` set ps)) = Max (axis ` set ps)"
    by (rule Max_insert_bot) (use assms in simp_all)
  then show ?thesis using assms(1) by (simp only: spec_max_def if_False)
qed

lemma calculateBounds_spec:
  assumes ne: "points st \<noteq> []" and fin: "\<forall>p\<in>set (points st). finite_point p"
  shows "minX (calculateBounds st) = spec_min px (points st)"
    and "maxX (calculateBounds st) = spec_max px (points st)"
    and "minY (calculateBounds st) = spec_min py (points st)"
    and "maxY (calculateBounds st) = spec_max py (points st)"
    and "minZ (calculateBounds st) = spec_min pz (points st)"
    and "maxZ (calculateBounds st) = spec_max pz (points st)"
proof -
  have bx: "\<forall>p\<in>set (points st). px p \<le> FLT_MAX" "\<forall>p\<in>set (points st). - FLT_MAX \<le> px p"
    and by': "\<forall>p\<in>set (points st). py p \<le> FLT_MAX" "\<forall>p\<in>set (points st). - FLT_MAX \<le> py p"
    and bz: "\<forall>p\<in>set (points st). pz p \<le> FLT_MAX" "\<forall>p\<in>set (points st). - FLT_MAX \<le> pz p"
    using fin by (auto simp: finite_point_def finite_float_def)
  show "minX (calculateBounds st) = spec_min px (points st)"
    by (simp only: calculateBounds_nonempty [OF ne] Min_insert_FLT_MAX [OF ne bx(1)])
  show "maxX (calculateBounds st) = spec_max px (points st)"
    by (simp only: calculateBounds_nonempty [OF ne] Max_insert_lowest [OF ne bx(2)])
  show "minY (calculateBounds st) = spec_min py (points st)"
    by (simp only: calculateBounds_nonempty [OF ne] Min_insert_FLT_MAX [OF ne by'(1)])
  show "maxY (calculateBounds st) = spec_max py (points st)"
    by (simp only: calculateBounds_nonempty [OF ne] Max_insert_lowest [OF ne by'(2)])
  show "minZ (calculateBounds st) = spec_min pz (points st)"
    by (simp only: calculateBounds_nonempty [OF ne] Min_insert_FLT_MAX [OF ne bz(1)])
  show "maxZ (calculateBounds st) = spec_max pz (points st)"
    by (simp only: calculateBounds_nonempty [OF ne] Max_insert_lowest [OF ne bz(2)])
qed

text \<open>
  C4. After \<open>calculateBounds\<close>, every sample lies between the stored minimum and
  maximum on each of the three axes; for a non-empty sequence of finite samples each of
  the six stored values is the coordinate of some sample; for the empty sequence all six
  are zero.
\<close>

theorem calculateBounds_correct:
  "(\<forall>p\<in>set (points st).
      minX (calculateBounds st) \<le> px p \<and> px p \<le> maxX (calculateBounds st)
      \<and> minY (calculateBounds st) \<le> py p \<and> py p \<le> maxY (calculateBounds st)
      \<and> minZ (calculateBounds st) \<le> pz p \<and> pz p \<le> maxZ (calculateBounds st))
   \<and> (points st \<noteq> [] \<and> (\<forall>p\<in>set (points st). finite_point p) \<longrightarrow>
        (\<exists>p\<in>set (points st). px p = minX (calculateBounds st))
        \<and> (\<exists>p\<in>set (points st). px p = maxX (calculateBounds st))
        \<and> (\<exists>p\<in>set (points st). py p = minY (calculateBounds st))
        \<and> (\<exists>p\<in>set (points st). py p = maxY (calculateBounds st))
        \<and> (\<exists>p\<in>set (points st). pz p = minZ (calculateBounds st))
        \<and> (\<exists>p\<in>set (points st). pz p = maxZ (calculateBounds st)))
   \<and> (points st = [] \<longrightarrow>
        minX (calculateBounds st) = 0 \<and> maxX (calculateBounds st) = 0
        \<and> minY (calculateBounds st) = 0 \<and> maxY (calculateBounds st) = 0
        \<and> minZ (calculateBounds st) = 0 \<and> maxZ (calculateBounds st) = 0)"
proof (intro conjI)
  show "\<forall>p\<in>set (points st).
      minX (calculateBounds st) \<le> px p \<and> px p \<le> maxX (calculateBounds st)
      \<and> minY (calculateBounds st) \<le> py p \<and> py p \<le> maxY (calculateBounds st)
      \<and> minZ (calculateBounds st) \<le> pz p \<and> pz p \<le> maxZ (calculateBounds st)"
    using calculateBounds_encloses by blast
next
  show "points st \<noteq> [] \<and> (\<forall>p\<in>set (points st). finite_point p) \<longrightarrow>
        (\<exists>p\<in>set (points st). px p = minX (calculateBounds st))
        \<and> (\<exists>p\<in>set (points st). px p = maxX (calculateBounds st))
        \<and> (\<exists>p\<in>set (points st). py p = minY (calculateBounds st))
        \<and> (\<exists>p\<in>set (points st). py p = maxY (calculateBounds st))
        \<and> (\<exists>p\<in>set (points st). pz p = minZ (calculateBounds st))
        \<and> (\<exists>p\<in>set (points st). pz p = maxZ (calculateBounds st))"
  proof
    assume h: "points st \<noteq> [] \<and> (\<forall>p\<in>set (points st). finite_point p)"
    then have ne: "points st \<noteq> []" and fin: "\<forall>p\<in>set (points st). finite_point p" by simp_all
    show "(\<exists>p\<in>set (points st). px p = minX (calculateBounds st))
        \<and> (\<exists>p\<in>set (points st). px p = maxX (calculateBounds st))
        \<and> (\<exists>p\<in>set (points st). py p = minY (calculateBounds st))
        \<and> (\<exists>p\<in>set (points st). py p = maxY (calculateBounds st))
        \<and> (\<exists>p\<in>set (points st). pz p = minZ (calculateBounds st))
        \<and> (\<exists>p\<in>set (points st). pz p = maxZ (calculateBounds st))"
      unfolding calculateBounds_spec [OF ne fin]
      by (intro conjI spec_min_attained [OF ne] spec_max_attained [OF ne])
  qed
next
  show "points st = [] \<longrightarrow>
        minX (calculateBounds st) = 0 \<and> maxX (calculateBounds st) = 0
        \<and> minY (calculateBounds st) = 0 \<and> maxY (calculateBounds st) = 0
        \<and> minZ (calculateBounds st) = 0 \<and> maxZ (calculateBounds st) = 0"
    using calculateBounds_empty by blast
qed


lemma calculateBounds_two_points:
  assumes "points st = two_points"
  shows "minX (calculateBounds st) = 1 \<and> maxX (calculateBounds st) = 4
       \<and> minY (calculateBounds st) = 2 \<and> maxY (calculateBounds st) = 5
       \<and> minZ (calculateBounds st) = 3 \<and> maxZ (calculateBounds st) = 6"
  by (simp add: calculateBounds_def assms two_points_def Point3D_at_def bounds_step_def Let_def
        std_min_def std_max_def FLT_MAX_def)

theorem calculateBounds_correct_witness:
  "points (PointCloudRenderer_init\<lparr>points := two_points\<rparr>) \<noteq> []
   \<and> list_all finite_point (points (PointCloudRenderer_init\<lparr>points := two_points\<rparr>))
   \<and> (\<exists>p\<in>set two_points. px p = 1) \<and> (\<exists>p\<in>set two_points. px p = 4)
   \<and> (\<exists>p\<in>set two_points. py p = 2) \<and> (\<exists>p\<in>set two_points. py p = 5)
   \<and> (\<exists>p\<in>set two_points. pz p = 3) \<and> (\<exists>p\<in>set two_points. pz p = 6)
   \<and> list_all (\<lambda>p. 1 \<le> px p \<and> px p \<le> 4 \<and> 2 \<le> py p \<and> py p \<le> 5
         \<and> 3 \<le> pz p \<and> pz p \<le> 6) two_points
   \<and> points PointCloudRenderer_init = []
   \<and> minX (calculateBounds PointCloudRenderer_init) = 0
   \<and> maxZ (calculateBounds PointCloudRenderer_init) = 0"
proof -
  have ne: "points (PointCloudRenderer_init\<lparr>points := two_points\<rparr>) \<noteq> []"
    by (simp add: two_points_def)
  have fin: "\<forall>p\<in>set (points (PointCloudRenderer_init\<lparr>points := two_points\<rparr>)). finite_point p"
    by (simp add: two_points_def Point3D_at_def finite_point_def finite_float_def FLT_MAX_def)
  have e: "points PointCloudRenderer_init = []"
    by (simp add: PointCloudRenderer_init_def)
  show ?thesis
    using ne fin e
      calculateBounds_correct [of "PointCloudRenderer_init\<lparr>points := two_points\<rparr>"]
      calculateBounds_correct [of PointCloudRenderer_init]
    by (simp add: calculateBounds_two_points list_all_iff)
qed

text \<open>
  C1, as stated, fails after \<open>clearPointCloud\<close>: after loading the two samples
  (1, 5, 3) and (4, 2, 6) and clearing, the sequence is empty and the stored box is still
  [1, 4] x [2, 5] x [3, 6], where the box of the empty sequence is the zero box.
\<close>

theorem clearPointCloud_keeps_bounds:
  "points (clearPointCloud (setPointCloud PointCloudRenderer_init two_points)) = []
   \<and> pointCount (clearPointCloud (setPointCloud PointCloudRenderer_init two_points)) = 0
   \<and> minX (clearPointCloud (setPointCloud PointCloudRenderer_init two_points)) = 1
   \<and> maxX (clearPointCloud (setPointCloud PointCloudRenderer_init two_points)) = 4
   \<and> minY (clearPointCloud (setPointCloud PointCloudRenderer_init two_points)) = 2
   \<and> maxY (clearPointCloud (setPointCloud PointCloudRenderer_init two_points)) = 5
   \<and> minZ (clearPointCloud (setPointCloud PointCloudRenderer_init two_points)) = 3
   \<and> maxZ (clearPointCloud (setPointCloud PointCloudRenderer_init two_points)) = 6
   \<and> minX (calculateBounds (clearPointCloud (setPointCloud PointCloudRenderer_init two_points))) = 0
   \<and> maxX (calculateBounds (clearPointCloud (setPointCloud PointCloudRenderer_init two_points))) = 0
   \<and> spec_min px (points (clearPointCloud (setPointCloud PointCloudRenderer_init two_points))) = 0
   \<and> spec_max px (points (clearPointCloud (setPointCloud PointCloudRenderer_init two_points))) = 0"
  by (simp add: clearPointCloud_def setPointCloud_def Let_def calculateBounds_two_points
        calculateBounds_empty spec_min_def spec_max_def)


section \<open>Recentring the camera\<close>



lemma setPointCloud_stored:
  "points (setPointCloud st ps) = ps" "pointCount (setPointCloud st ps) = length ps"
  "minX (setPointCloud st ps) = minX (calculateBounds (st\<lparr>points := ps, pointCount := length ps\<rparr>))"
  "maxX (setPointCloud st ps) = maxX (calculateBounds (st\<lparr>points := ps, pointCount := length ps\<rparr>))"
  "minY (setPointCloud st ps) = minY (calculateBounds (st\<lparr>points := ps, pointCount := length ps\<rparr>))"
  "maxY (setPointCloud st ps) = maxY (calculateBounds (st\<lparr>points := ps, pointCount := length ps\<rparr>))"
  "minZ (setPointCloud st ps) = minZ (calculateBounds (st\<lparr>points := ps, pointCount := length ps\<rparr>))"
  "maxZ (setPointCloud st ps) = maxZ (calculateBounds (st\<lparr>points := ps, pointCount := length ps\<rparr>))"
  by (simp_all add: setPointCloud_def Let_def calculateBounds_frame)

lemma setPointCloud_box:
  assumes fin: "\<forall>p\<in>set ps. finite_point p"
  shows "minX (setPointCloud st ps) = spec_min px ps \<and> maxX (setPointCloud st ps) = spec_max px ps
       \<and> minY (setPointCloud st ps) = spec_min py ps \<and> maxY (setPointCloud st ps) = spec_max py ps
       \<and> minZ (setPointCloud st ps) = spec_min pz ps \<and> maxZ (setPointCloud st ps) = spec_max pz ps"
proof (cases "ps = []")
  case True
  then show ?thesis
    by (simp add: setPointCloud_stored calculateBounds_empty spec_min_def spec_max_def)
next
  case False
  have ne: "points (st\<lparr>points := ps, pointCount := length ps\<rparr>) \<noteq> []" using False by simp
  have f: "\<forall>p\<in>set (points (st\<lparr>points := ps, pointCount := length ps\<rparr>)). finite_point p"
    using fin by simp
  show ?thesis using calculateBounds_spec [OF ne f] by (simp add: setPointCloud_stored)
qed







section \<open>Replacing and clearing the point sequence\<close>

lemma calculateBounds_points_only:
  assumes "points s = points t"
  shows "minX (calculateBounds s) = minX (calculateBounds t)
       \<and> maxX (calculateBounds s) = maxX (calculateBounds t)
       \<and> minY (calculateBounds s) = minY (calculateBounds t)
       \<and> maxY (calculateBounds s) = maxY (calculateBounds t)
       \<and> minZ (calculateBounds s) = minZ (calculateBounds t)
       \<and> maxZ (calculateBounds s) = maxZ (calculateBounds t)"
proof (cases "points t = []")
  case True
  then show ?thesis using assms by (simp add: calculateBounds_empty)
next
  case False
  then have "points s \<noteq> []" using assms by simp
  then show ?thesis using False assms by (simp add: calculateBounds_nonempty)
qed

lemma clearPointCloud_fields:
  "points (clearPointCloud st) = []" "pointCount (clearPointCloud st) = 0"
  "minX (clearPointCloud st) = minX st" "maxX (clearPointCloud st) = maxX st"
  "minY (clearPointCloud st) = minY st" "maxY (clearPointCloud st) = maxY st"
  "minZ (clearPointCloud st) = minZ st" "maxZ (clearPointCloud st) = maxZ st"
  "showGrid (clearPointCloud st) = showGrid st"
  "showAxisLabels (clearPointCloud st) = showAxisLabels st"
  "gridSpacing (clearPointCloud st) = gridSpacing st"
  by (simp_all add: clearPointCloud_def Let_def)

text \<open>
  C1, amended. After \<open>setPointCloud\<close> the stored box is the box recomputed from the
  current sequence: for finite samples the minimum and maximum per axis, and the zero box
  for the empty sequence. \<open>clearPointCloud\<close> empties the sequence and sets the count to 0
  and leaves the stored box as it was, so that the grid and the axis labels are drawn as
  before the call and no point is drawn.
\<close>

theorem point_store_bounds:
  "minX (calculateBounds (setPointCloud st ps)) = minX (setPointCloud st ps)
   \<and> maxX (calculateBounds (setPointCloud st ps)) = maxX (setPointCloud st ps)
   \<and> minY (calculateBounds (setPointCloud st ps)) = minY (setPointCloud st ps)
   \<and> maxY (calculateBounds (setPointCloud st ps)) = maxY (setPointCloud st ps)
   \<and> minZ (calculateBounds (setPointCloud st ps)) = minZ (setPointCloud st ps)
   \<and> maxZ (calculateBounds (setPointCloud st ps)) = maxZ (setPointCloud st ps)
   \<and> ((\<forall>p\<in>set ps. finite_point p) \<longrightarrow>
        minX (setPointCloud st ps) = spec_min px ps \<and> maxX (setPointCloud st ps) = spec_max px ps
        \<and> minY (setPointCloud st ps) = spec_min py ps \<and> maxY (setPointCloud st ps) = spec_max py ps
        \<and> minZ (setPointCloud st ps) = spec_min pz ps \<and> maxZ (setPointCloud st ps) = spec_max pz ps)
   \<and> points (clearPointCloud s) = [] \<and> pointCount (clearPointCloud s) = 0
   \<and> minX (clearPointCloud s) = minX s \<and> maxX (clearPointCloud s) = maxX s
   \<and> minY (clearPointCloud s) = minY s \<and> maxY (clearPointCloud s) = maxY s
   \<and> minZ (clearPointCloud s) = minZ s \<and> maxZ (clearPointCloud s) = maxZ s
   \<and> renderGrid (clearPointCloud s) = renderGrid s
   \<and> renderAxisLabels_part_001 (clearPointCloud s) = renderAxisLabels_part_001 s
   \<and> renderAxisLabels_part_002 (clearPointCloud s) = renderAxisLabels_part_002 s
   \<and> renderAxisLabels_part_003 (clearPointCloud s) = renderAxisLabels_part_003 s
   \<and> render_points (clearPointCloud s) cur = []"
proof -
  have p: "points (setPointCloud st ps) = points (st\<lparr>points := ps, pointCount := length ps\<rparr>)"
    by (simp add: setPointCloud_stored)
  have re: "minX (calculateBounds (setPointCloud st ps)) = minX (setPointCloud st ps)
   \<and> maxX (calculateBounds (setPointCloud st ps)) = maxX (setPointCloud st ps)
   \<and> minY (calculateBounds (setPointCloud st ps)) = minY (setPointCloud st ps)
   \<and> maxY (calculateBounds (setPointCloud st ps)) = maxY (setPointCloud st ps)
   \<and> minZ (calculateBounds (setPointCloud st ps)) = minZ (setPointCloud st ps)
   \<and> maxZ (calculateBounds (setPointCloud st ps)) = maxZ (setPointCloud st ps)"
    using calculateBounds_points_only [OF p] by (simp add: setPointCloud_stored)
  have g: "renderGrid (clearPointCloud s) = renderGrid s"
    by (simp add: renderGrid_def clearPointCloud_fields)
  have l1: "renderAxisLabels_part_001 (clearPointCloud s) = renderAxisLabels_part_001 s"
    by (simp add: renderAxisLabels_part_001_def clearPointCloud_fields)
  have l2: "renderAxisLabels_part_002 (clearPointCloud s) = renderAxisLabels_part_002 s"
    by (simp add: renderAxisLabels_part_002_def clearPointCloud_fields)
  have l3: "renderAxisLabels_part_003 (clearPointCloud s) = renderAxisLabels_part_003 s"
    by (simp add: renderAxisLabels_part_003_def clearPointCloud_fields)
  have r: "render_points (clearPointCloud s) cur = []"
    by (simp add: render_points_def clearPointCloud_fields)
  show ?thesis using re g l1 l2 l3 r setPointCloud_box [of ps st]
    by (simp add: clearPointCloud_fields)
qed

theorem point_store_bounds_witness:
  "list_all finite_point two_points
   \<and> minX (setPointCloud PointCloudRenderer_init two_points) = 1
   \<and> maxX (setPointCloud PointCloudRenderer_init two_points) = 4
   \<and> spec_min py two_points = 2 \<and> spec_max py two_points = 5
   \<and> minZ (calculateBounds (setPointCloud PointCloudRenderer_init two_points)) = 3
   \<and> maxZ (clearPointCloud (setPointCloud PointCloudRenderer_init two_points)) = 6
   \<and> renderGrid (clearPointCloud (setPointCloud PointCloudRenderer_init two_points))
       = Some ([0, 1, 2, 3, 4], [0, 1, 2, 3, 4], [0, 1, 2, 3, 4])"
proof -
  have fin: "list_all finite_point two_points"
    by (simp add: two_points_def Point3D_at_def finite_point_def finite_float_def FLT_MAX_def)
  then have f: "\<forall>p\<in>set two_points. finite_point p" by (simp add: list_all_iff)
  have b: "minX (setPointCloud PointCloudRenderer_init two_points) = 1
     \<and> maxX (setPointCloud PointCloudRenderer_init two_points) = 4
     \<and> minY (setPointCloud PointCloudRenderer_init two_points) = 2
     \<and> maxY (setPointCloud PointCloudRenderer_init two_points) = 5
     \<and> minZ (setPointCloud PointCloudRenderer_init two_points) = 3
     \<and> maxZ (setPointCloud PointCloudRenderer_init two_points) = 6
     \<and> showGrid (setPointCloud PointCloudRenderer_init two_points)
     \<and> gridSpacing (setPointCloud PointCloudRenderer_init two_points) = 1"
    by (simp add: setPointCloud_stored calculateBounds_two_points)
       (simp add: setPointCloud_def Let_def calculateBounds_frame PointCloudRenderer_init_def)
  have g: "renderGrid (setPointCloud PointCloudRenderer_init two_points)
       = Some ([0, 1, 2, 3, 4], [0, 1, 2, 3, 4], [0, 1, 2, 3, 4])"
    by (simp add: renderGrid_def b Let_def numLines_def trunc_def INT_MAX_def INT_MIN_def
          for_upto.simps)
  show ?thesis
    using fin f b g point_store_bounds [where st = PointCloudRenderer_init and ps = two_points
        and s = "setPointCloud PointCloudRenderer_init two_points"]
    by simp
qed

section \<open>Camera distance\<close>









section \<open>Grid spacing\<close>










section \<open>Height colouring\<close>









section \<open>Axis labels\<close>

lemma for_upto_one: "for_upto i n 1 = [i..n]"
proof (induction i n "1::int" rule: for_upto.induct)
  case (1 i n)
  show ?case
  proof (cases "i \<le> n")
    case True
    then show ?thesis using 1 by (simp add: for_upto.simps [of i n 1] upto_rec1 [of i n])
  next
    case False
    then show ?thesis by (simp add: for_upto.simps [of i n 1])
  qed
qed

lemma for_upto_set:
  "0 < k \<Longrightarrow> set (for_upto i n k) = {j. \<exists>m. 0 \<le> m \<and> j = i + m * k \<and> j \<le> n}"
proof (induction i n k rule: for_upto.induct)
  case (1 i n k)
  show ?case
  proof (cases "i \<le> n")
    case False
    have "j = i + m * k \<Longrightarrow> 0 \<le> m \<Longrightarrow> \<not> j \<le> n" for j m
    proof -
      assume "j = i + m * k" "0 \<le> m"
      then have "i \<le> j" using \<open>0 < k\<close> by simp
      then show ?thesis using False by simp
    qed
    then show ?thesis using False by (auto simp: for_upto.simps [of i n k])
  next
    case True
    have ih: "set (for_upto (i + k) n k) = {j. \<exists>m. 0 \<le> m \<and> j = i + k + m * k \<and> j \<le> n}"
      using 1 True by simp
    have "{j. \<exists>m. 0 \<le> m \<and> j = i + m * k \<and> j \<le> n}
        = insert i {j. \<exists>m. 0 \<le> m \<and> j = i + k + m * k \<and> j \<le> n}" (is "?L = ?R")
    proof (intro set_eqI iffI)
      fix j assume "j \<in> ?L"
      then obtain m where m: "0 \<le> m" "j = i + m * k" "j \<le> n" by blast
      show "j \<in> ?R"
      proof (cases "m = 0")
        case True
        then show ?thesis using m by simp
      next
        case False
        then have "0 \<le> m - 1" "j = i + k + (m - 1) * k" using m by (simp_all add: algebra_simps)
        then show ?thesis using m(3) by blast
      qed
    next
      fix j assume "j \<in> ?R"
      then consider "j = i" | m where "0 \<le> m" "j = i + k + m * k" "j \<le> n" by blast
      then show "j \<in> ?L"
      proof cases
        case 1
        then have "0 \<le> (0::int) \<and> j = i + 0 * k \<and> j \<le> n" using True by simp
        then show ?thesis by blast
      next
        case 2
        then have "0 \<le> m + 1 \<and> j = i + (m + 1) * k \<and> j \<le> n" by (simp add: algebra_simps)
        then show ?thesis by blast
      qed
    qed
    then show ?thesis using True \<open>0 < k\<close> ih by (simp add: for_upto.simps [of i n k])
  qed
qed

lemma for_upto_zero_set:
  assumes "0 < k"
  shows "set (for_upto 0 n k) = {j. 0 \<le> j \<and> j \<le> n \<and> k dvd j}"
proof -
  have "(\<exists>m. 0 \<le> m \<and> j = m * k \<and> j \<le> n) \<longleftrightarrow> (0 \<le> j \<and> j \<le> n \<and> k dvd j)" for j
  proof
    assume "\<exists>m. 0 \<le> m \<and> j = m * k \<and> j \<le> n"
    then obtain m where "0 \<le> m" "j = m * k" "j \<le> n" by blast
    then show "0 \<le> j \<and> j \<le> n \<and> k dvd j" using assms by simp
  next
    assume h: "0 \<le> j \<and> j \<le> n \<and> k dvd j"
    then obtain m where m: "j = k * m" by (auto simp: dvd_def)
    have "0 \<le> m" using h m assms by (simp add: zero_le_mult_iff)
    then have "0 \<le> m \<and> j = m * k \<and> j \<le> n" using h m by (simp add: mult.commute)
    then show "\<exists>m. 0 \<le> m \<and> j = m * k \<and> j \<le> n" by blast
  qed
  then show ?thesis using for_upto_set [OF assms, of 0 n] by simp
qed


lemma skip_part_002_spec: "skip_part_002 n = spec_skip n"
  by (simp add: skip_part_002_def spec_skip_def Let_def)

lemma labelSkip_part_001_spec: "labelSkip_part_001 n = spec_skip n"
  by (simp add: labelSkip_part_001_def spec_skip_def Let_def)

lemma yLabelSkip_part_001_spec:
  "yLabelSkip_part_001 s n = (if n > 15 then spec_skip n else s)"
  by (simp add: yLabelSkip_part_001_def spec_skip_def Let_def)

lemma long_cloud_bounds:
  assumes "points st = long_cloud"
  shows "minX (calculateBounds st) = 0 \<and> maxX (calculateBounds st) = 11.5
       \<and> minY (calculateBounds st) = 0 \<and> maxY (calculateBounds st) = 1
       \<and> minZ (calculateBounds st) = 0 \<and> maxZ (calculateBounds st) = 1"
  by (simp add: calculateBounds_def assms long_cloud_def Point3D_at_def bounds_step_def Let_def
        std_min_def std_max_def FLT_MAX_def)

lemma long_cloud_state:
  "minX (setPointCloud PointCloudRenderer_init long_cloud) = 0
   \<and> maxX (setPointCloud PointCloudRenderer_init long_cloud) = 11.5
   \<and> minY (setPointCloud PointCloudRenderer_init long_cloud) = 0
   \<and> maxY (setPointCloud PointCloudRenderer_init long_cloud) = 1
   \<and> minZ (setPointCloud PointCloudRenderer_init long_cloud) = 0
   \<and> maxZ (setPointCloud PointCloudRenderer_init long_cloud) = 1
   \<and> gridSpacing (setPointCloud PointCloudRenderer_init long_cloud) = 1
   \<and> showGrid (setPointCloud PointCloudRenderer_init long_cloud)
   \<and> showAxisLabels (setPointCloud PointCloudRenderer_init long_cloud)"
  by (simp add: setPointCloud_stored long_cloud_bounds)
     (simp add: setPointCloud_def Let_def calculateBounds_frame PointCloudRenderer_init_def)

text \<open>
  C8, as stated, fails for the definition in part_003: with 12 lines along X (a box of
  width 11.5 under the default spacing 1), which is not more than 15, the grid has the
  lines 0 to 12 and only the even ones are labelled.
\<close>

theorem renderAxisLabels_part_003_twelve_lines:
  "renderGrid (setPointCloud PointCloudRenderer_init long_cloud)
     = Some ([0, 1, 2, 3, 4, 5, 6, 7, 8, 9, 10, 11, 12], [0, 1, 2], [0, 1, 2])
   \<and> renderAxisLabels_part_003 (setPointCloud PointCloudRenderer_init long_cloud)
     = Some ([0, 2, 4, 6, 8, 10, 12], [0, 1, 2], [0, 1, 2])"
  by (simp add: renderGrid_def renderAxisLabels_part_003_def long_cloud_state Let_def
        numLines_def trunc_def INT_MAX_def INT_MIN_def skip_part_003_def for_upto.simps)

text \<open>
  C8, amended. When labels are drawn and the three line counts are defined: the
  definition in part_002 labels, along X and along Y, every line for a count up to 15,
  every 2nd line for a count above 15 and every 4th for a count above 30, each from the
  count of its own axis, and submits no line labels along Z; the definition in part_003
  labels every line for a count up to 10 and every 2nd line above 10, on the three axes;
  the definition in part_001 applies the thresholds 15 and 30 to the X count for the X
  and the Z axis, and to the Y count for the Y axis, which takes the skip of the X axis
  when its own count is 15 or less. A loop with skip \<open>k\<close> labels the multiples of
  \<open>k\<close> from 0 to the line count, and with skip 1 every line.
\<close>

theorem label_thinning:
  "(showAxisLabels st \<and> showGrid st
      \<and> maxX st \<noteq> minX st \<and> maxY st \<noteq> minY st \<and> maxZ st \<noteq> minZ st
      \<and> numLines (maxX st - minX st) (gridSpacing st) = Some nx
      \<and> numLines (maxY st - minY st) (gridSpacing st) = Some ny
      \<and> numLines (maxZ st - minZ st) (gridSpacing st) = Some nz \<longrightarrow>
      renderAxisLabels_part_002 st
        = Some (for_upto 0 nx (spec_skip nx), for_upto 0 ny (spec_skip ny), [])
      \<and> renderAxisLabels_part_003 st
        = Some (for_upto 0 nx (if nx > 10 then 2 else 1), for_upto 0 ny (if ny > 10 then 2 else 1),
                for_upto 0 nz (if nz > 10 then 2 else 1))
      \<and> renderAxisLabels_part_001 st
        = Some (for_upto 0 nx (spec_skip nx),
                for_upto 0 ny (if ny > 15 then spec_skip ny else spec_skip nx),
                for_upto 0 nz (spec_skip nx)))
   \<and> (0 < k \<longrightarrow> set (for_upto 0 n k) = {j. 0 \<le> j \<and> j \<le> n \<and> k dvd j})
   \<and> for_upto 0 n 1 = [0..n]"
proof (intro conjI impI)
  assume h: "showAxisLabels st \<and> showGrid st
      \<and> maxX st \<noteq> minX st \<and> maxY st \<noteq> minY st \<and> maxZ st \<noteq> minZ st
      \<and> numLines (maxX st - minX st) (gridSpacing st) = Some nx
      \<and> numLines (maxY st - minY st) (gridSpacing st) = Some ny
      \<and> numLines (maxZ st - minZ st) (gridSpacing st) = Some nz"
  show "renderAxisLabels_part_002 st
        = Some (for_upto 0 nx (spec_skip nx), for_upto 0 ny (spec_skip ny), [])"
    using h by (simp add: renderAxisLabels_part_002_def Let_def skip_part_002_spec)
  show "renderAxisLabels_part_003 st
        = Some (for_upto 0 nx (if nx > 10 then 2 else 1), for_upto 0 ny (if ny > 10 then 2 else 1),
                for_upto 0 nz (if nz > 10 then 2 else 1))"
    using h by (simp add: renderAxisLabels_part_003_def Let_def skip_part_003_def)
  show "renderAxisLabels_part_001 st
        = Some (for_upto 0 nx (spec_skip nx),
                for_upto 0 ny (if ny > 15 then spec_skip ny else spec_skip nx),
                for_upto 0 nz (spec_skip nx))"
    using h by (simp add: renderAxisLabels_part_001_def Let_def labelSkip_part_001_spec
          yLabelSkip_part_001_spec)
next
  assume "0 < k"
  then show "set (for_upto 0 n k) = {j. 0 \<le> j \<and> j \<le> n \<and> k dvd j}"
    by (rule for_upto_zero_set)
next
  show "for_upto 0 n 1 = [0..n]" by (rule for_upto_one)
qed

lemma fine_grid_state:
  "showAxisLabels fine_grid \<and> showGrid fine_grid
   \<and> maxX fine_grid \<noteq> minX fine_grid \<and> maxY fine_grid \<noteq> minY fine_grid
   \<and> maxZ fine_grid \<noteq> minZ fine_grid
   \<and> numLines (maxX fine_grid - minX fine_grid) (gridSpacing fine_grid) = Some 24
   \<and> numLines (maxY fine_grid - minY fine_grid) (gridSpacing fine_grid) = Some 3
   \<and> numLines (maxZ fine_grid - minZ fine_grid) (gridSpacing fine_grid) = Some 3"
  by (simp add: fine_grid_def setGridSpacing_def long_cloud_state
        numLines_def trunc_def INT_MAX_def INT_MIN_def Let_def)

theorem label_thinning_witness:
  "showAxisLabels fine_grid \<and> showGrid fine_grid
   \<and> maxX fine_grid \<noteq> minX fine_grid \<and> maxY fine_grid \<noteq> minY fine_grid
   \<and> maxZ fine_grid \<noteq> minZ fine_grid
   \<and> numLines (maxX fine_grid - minX fine_grid) (gridSpacing fine_grid) = Some 24
   \<and> numLines (maxY fine_grid - minY fine_grid) (gridSpacing fine_grid) = Some 3
   \<and> numLines (maxZ fine_grid - minZ fine_grid) (gridSpacing fine_grid) = Some 3
   \<and> renderAxisLabels_part_002 fine_grid
       = Some ([0, 2, 4, 6, 8, 10, 12, 14, 16, 18, 20, 22, 24], [0, 1, 2, 3], [])
   \<and> renderAxisLabels_part_003 fine_grid
       = Some ([0, 2, 4, 6, 8, 10, 12, 14, 16, 18, 20, 22, 24], [0, 1, 2, 3], [0, 1, 2, 3])
   \<and> renderAxisLabels_part_001 fine_grid
       = Some ([0, 2, 4, 6, 8, 10, 12, 14, 16, 18, 20, 22, 24], [0, 2], [0, 2])
   \<and> (0::int) < 4 \<and> set (for_upto 0 9 4) = {0, 4, 8}
   \<and> for_upto 0 3 1 = [0, 1, 2, 3]"
  using fine_grid_state
    label_thinning [where st = fine_grid and nx = 24 and ny = 3 and nz = 3 and k = 4
      and n = 9]
    label_thinning [where st = fine_grid and nx = 24 and ny = 3 and nz = 3 and k = 4
      and n = 3]
  by (simp add: spec_skip_def for_upto.simps)

end
